theory Spec2Isabelle
  imports Main "HOL-Library.Char_ord" "HOL-Library.List_Lexorder" "HOL-Library.Sublist"
    "HOL-Library.Multiset"
begin

section \<open>Python values used by \<^verbatim>\<open>cli_to_automation.py\<close>\<close>

text \<open>
  A Python \<^verbatim>\<open>str\<close> is modelled as a \<^typ>\<open>string\<close>; a \<^typ>\<open>char\<close> stands for the
  code point of the same number, so the model covers the strings whose code points are
  below 256. Strings are ordered as Python orders them: lexicographically by code point,
  a proper prefix first (\<^verbatim>\<open>Char_ord\<close> and \<^verbatim>\<open>List_Lexorder\<close>).
\<close>

text \<open>
  \<^verbatim>\<open>str.isspace\<close> on one character, for code points below 256: tab, line feed,
  vertical tab, form feed, carriage return, the separators 0x1C to 0x1F, space,
  NEL (0x85) and the no-break space (0xA0).
\<close>

definition isspace :: "char \<Rightarrow> bool" where
  "isspace c = ((of_char c :: nat) \<in> set [9, 10, 11, 12, 13, 28, 29, 30, 31, 32, 133, 160])"

text \<open>
  The line boundaries of \<^verbatim>\<open>str.splitlines\<close>, for code points below 256: line feed,
  vertical tab, form feed, carriage return, 0x1C, 0x1D, 0x1E and NEL (0x85).
\<close>

definition is_linebreak :: "char \<Rightarrow> bool" where
  "is_linebreak c = ((of_char c :: nat) \<in> set [10, 11, 12, 13, 28, 29, 30, 133])"

text \<open>\<^verbatim>\<open>s.strip()\<close>: whitespace removed at both ends.\<close>

definition strip :: "string \<Rightarrow> string" where
  "strip s = rev (dropWhile isspace (rev (dropWhile isspace s)))"

text \<open>
  \<^verbatim>\<open>s.splitlines()\<close>: the text up to the next line boundary is one line; a carriage
  return directly followed by a line feed is one boundary; a boundary at the very end of
  the text opens no further line.
\<close>

function splitlines :: "string \<Rightarrow> string list" where
  "splitlines [] = []"
| "splitlines (c # cs) =
     takeWhile (\<lambda>x. \<not> is_linebreak x) (c # cs) #
       (case dropWhile (\<lambda>x. \<not> is_linebreak x) (c # cs) of
          [] \<Rightarrow> []
        | b # r \<Rightarrow>
            (case r of
               [] \<Rightarrow> []
             | d # r' \<Rightarrow>
                 if b = CHR 0x0D \<and> d = CHR 0x0A then splitlines r'
                 else splitlines (d # r')))"
  by pat_completeness auto
termination
proof (relation "measure length")
  show "wf (measure length)" by simp
next
  fix c cs b r d r'
  assume "dropWhile (\<lambda>x. \<not> is_linebreak x) (c # cs) = b # r" "r = d # r'"
  then have "length (b # d # r') \<le> length (c # cs)"
    by (metis length_dropWhile_le)
  then show "(r', c # cs) \<in> measure length" "(d # r', c # cs) \<in> measure length"
    by simp_all
qed

text \<open>\<^verbatim>\<open>s.startswith(p)\<close>.\<close>

definition startswith :: "string \<Rightarrow> string \<Rightarrow> bool" where
  "startswith s p = (take (length p) s = p)"

text \<open>\<^verbatim>\<open>sep.join(xs)\<close>.\<close>

fun str_join :: "string \<Rightarrow> string list \<Rightarrow> string" where
  "str_join sep [] = []"
| "str_join sep [x] = x"
| "str_join sep (x # y # ys) = x @ sep @ str_join sep (y # ys)"

text \<open>
  A Python float as JSON parsing gives it: a finite value \<open>m * 2 ^ e\<close>, an infinity
  (with its sign) or not-a-number. Only its truth value is looked at by the program.
\<close>

datatype pyfloat = Finite int int | Infinity bool | NaN

text \<open>
  What \<^verbatim>\<open>response.json()\<close> returns. A \<^verbatim>\<open>dict\<close> is the list of its items in
  iteration order; its keys are pairwise distinct, as the keys of a Python dict are.
\<close>

datatype json =
    JNull
  | JBool bool
  | JInt int
  | JFloat pyfloat
  | JStr string
  | JArr "json list"
  | JObj "(string \<times> json) list"

text \<open>\<^verbatim>\<open>d.get(key, default)\<close>; \<^verbatim>\<open>d.get(key)\<close> is \<open>dict_get d key JNull\<close>.\<close>

definition dict_get :: "(string \<times> json) list \<Rightarrow> string \<Rightarrow> json \<Rightarrow> json" where
  "dict_get d k dflt = (case map_of d k of None \<Rightarrow> dflt | Some v \<Rightarrow> v)"

text \<open>The truth value of a value in a condition (\<^verbatim>\<open>if output:\<close>).\<close>

fun truthy :: "json \<Rightarrow> bool" where
  "truthy JNull = False"
| "truthy (JBool b) = b"
| "truthy (JInt n) = (n \<noteq> 0)"
| "truthy (JFloat (Finite m e)) = (m \<noteq> 0)"
| "truthy (JFloat (Infinity s)) = True"
| "truthy (JFloat NaN) = True"
| "truthy (JStr s) = (s \<noteq> [])"
| "truthy (JArr xs) = (xs \<noteq> [])"
| "truthy (JObj d) = (d \<noteq> [])"

text \<open>
  A value inside an f-string: a \<^verbatim>\<open>str\<close> is inserted as it is; for every other value
  Python inserts \<^verbatim>\<open>str(v)\<close>, which is the parameter \<open>py_str\<close> of the model.
\<close>

definition fstr :: "(json \<Rightarrow> string) \<Rightarrow> json \<Rightarrow> string" where
  "fstr py_str v = (case v of JStr s \<Rightarrow> s | _ \<Rightarrow> py_str v)"

text \<open>
  The exceptions of the program and of the libraries it calls. \<open>ReadError\<close> is what
  \<^verbatim>\<open>read_text\<close> raises on a path that exists and is not a readable UTF-8 text file;
  \<open>AttributeError\<close> is raised by a method call on a value that has no such method
  (\<^verbatim>\<open>.get\<close>, \<^verbatim>\<open>.items\<close>, \<^verbatim>\<open>.strip\<close>); \<open>UsageError\<close> is \<^verbatim>\<open>parser.error\<close>.
\<close>

datatype py_error =
    FileNotFoundError string
  | ReadError
  | ConnectionError
  | ConnectTimeout
  | ReadTimeout
  | HTTPError nat
  | RequestException
  | JSONDecodeError
  | ValueError string
  | AttributeError
  | UsageError string

section \<open>The API client\<close>

definition DDT_API_URL :: string where
  "DDT_API_URL = ''http://ddt.rnd.huawei.com:12240/ddt_cli_parser/testbot_query''"

definition DEFAULT_TIMEOUT :: int where
  "DEFAULT_TIMEOUT = 60"

text \<open>The arguments of \<^verbatim>\<open>requests.post\<close>.\<close>

record request =
  req_url :: string
  req_json :: json
  req_timeout :: int
  req_headers :: "(string \<times> string) list"

text \<open>
  What the network does with a request: \<^verbatim>\<open>requests.post\<close> raises, or it returns a
  response with a status code and a body; \<open>None\<close> is a body that \<^verbatim>\<open>response.json()\<close>
  cannot parse.
\<close>

datatype http_result = PostRaises py_error | Response nat "json option"

text \<open>
  The request that \<^verbatim>\<open>call_ddt_api\<close> posts: all commands joined by line feeds are
  the only element of \<^verbatim>\<open>block_clis\<close>.
\<close>

definition ddt_request :: "string list \<Rightarrow> string list \<Rightarrow> int \<Rightarrow> request" where
  "ddt_request cli_commands products timeout =
     (let cli_block = str_join ''\<newline>'' cli_commands;
          payload = JObj [(''applicable_products'', JArr (map JStr products)),
                          (''block_clis'', JArr [JStr cli_block])]
      in \<lparr>req_url = DDT_API_URL, req_json = payload, req_timeout = timeout,
          req_headers = [(''Content-Type'', ''application/json''),
                         (''Accept'', ''application/json'')]\<rparr>)"

text \<open>
  \<^verbatim>\<open>call_ddt_api\<close>. \<^verbatim>\<open>raise_for_status\<close> raises for the status codes 400 to 599.
\<close>

definition call_ddt_api ::
  "(request \<Rightarrow> http_result) \<Rightarrow> (json \<Rightarrow> string) \<Rightarrow> string list \<Rightarrow> string list \<Rightarrow> int
     \<Rightarrow> py_error + json" where
  "call_ddt_api post py_str cli_commands products timeout =
     (case post (ddt_request cli_commands products timeout) of
        PostRaises e \<Rightarrow> Inl e
      | Response code body \<Rightarrow>
          if 400 \<le> code \<and> code < 600 then Inl (HTTPError code)
          else (case body of
                  None \<Rightarrow> Inl JSONDecodeError
                | Some data \<Rightarrow>
                    (case data of
                       JObj d \<Rightarrow>
                         if dict_get d ''status'' JNull \<noteq> JStr ''SUCCESS''
                         then Inl (ValueError (''API error: '' @
                                fstr py_str (dict_get d ''message'' (JStr ''Unknown error''))))
                         else Inr data
                     | _ \<Rightarrow> Inl AttributeError)))"

section \<open>The line extractor\<close>

text \<open>
  The inner loop of \<^verbatim>\<open>extract_automation_lines\<close> over the lines of one output text;
  \<open>lines\<close> is the list the function appends to.
\<close>

fun append_output :: "string list \<Rightarrow> string list \<Rightarrow> string list" where
  "append_output [] lines = lines"
| "append_output (line # rest) lines =
     (let stripped = strip line
      in if stripped \<noteq> [] then append_output rest (lines @ [stripped])
         else append_output rest lines)"

text \<open>The outer loop, over the sorted items of the result dict.\<close>

fun extract_loop ::
  "(json \<Rightarrow> string) \<Rightarrow> (string \<times> json) list \<Rightarrow> string list \<Rightarrow> py_error + string list" where
  "extract_loop py_str [] lines = Inr lines"
| "extract_loop py_str ((key, entry) # rest) lines =
     (case entry of
        JObj e \<Rightarrow>
          if dict_get e ''status'' JNull \<noteq> JStr ''SUCCESS''
          then extract_loop py_str rest
                 (lines @ [''# ERROR: '' @
                    fstr py_str (dict_get e ''error_message'' (JStr ''Unknown error''))])
          else (let output = dict_get e ''output_lines'' (JStr '''')
                in if truthy output
                   then (case output of
                           JStr s \<Rightarrow>
                             extract_loop py_str rest (append_output (splitlines (strip s)) lines)
                         | _ \<Rightarrow> Inl AttributeError)
                   else extract_loop py_str rest lines)
      | _ \<Rightarrow> Inl AttributeError)"

text \<open>
  \<^verbatim>\<open>extract_automation_lines\<close>. \<^verbatim>\<open>sorted(result.items())\<close> compares the
  (key, entry) pairs; the keys of a dict are distinct, so the keys alone decide.
\<close>

definition extract_automation_lines :: "(json \<Rightarrow> string) \<Rightarrow> json \<Rightarrow> py_error + string list" where
  "extract_automation_lines py_str api_response =
     (case api_response of
        JObj r \<Rightarrow>
          (case dict_get r ''result'' (JObj []) of
             JObj result \<Rightarrow> extract_loop py_str (sort_key fst result) []
           | _ \<Rightarrow> Inl AttributeError)
      | _ \<Rightarrow> Inl AttributeError)"

section \<open>The specification's reading of the line extractor\<close>

text \<open>
  The lines that the specification gives one result entry: one error line for an entry
  whose status is not \<^verbatim>\<open>SUCCESS\<close>, else the stripped, non-empty lines of the stripped
  output text. An entry that is no dict, or whose output is a non-empty value other than
  a text, has no lines: the program raises there.
\<close>

definition spec_entry_lines :: "(json \<Rightarrow> string) \<Rightarrow> json \<Rightarrow> py_error + string list" where
  "spec_entry_lines py_str entry =
     (case entry of
        JObj e \<Rightarrow>
          if dict_get e ''status'' JNull \<noteq> JStr ''SUCCESS''
          then Inr [''# ERROR: '' @
                 (case map_of e ''error_message'' of
                    None \<Rightarrow> ''Unknown error''
                  | Some v \<Rightarrow> fstr py_str v)]
          else (case dict_get e ''output_lines'' (JStr '''') of
                  JStr s \<Rightarrow> Inr (filter (\<lambda>l. l \<noteq> []) (map strip (splitlines (strip s))))
                | v \<Rightarrow> if truthy v then Inl AttributeError else Inr [])
      | _ \<Rightarrow> Inl AttributeError)"

text \<open>The flat sequence: the lines of the entries one after the other, up to the first failure.\<close>

fun spec_flatten :: "(py_error + string list) list \<Rightarrow> py_error + string list" where
  "spec_flatten [] = Inr []"
| "spec_flatten (Inl e # rs) = Inl e"
| "spec_flatten (Inr ls # rs) = map_sum id ((@) ls) (spec_flatten rs)"

section \<open>The renderer\<close>

definition generate_script :: "string list \<Rightarrow> string list \<Rightarrow> string list \<Rightarrow> string" where
  "generate_script automation_lines products cli_commands =
     (if automation_lines = [] then ''# No automation lines generated\<newline>''
      else str_join ''\<newline>'' automation_lines @ ''\<newline>'')"

section \<open>The input collector\<close>

text \<open>
  What the file system has at a path: nothing (\<open>None\<close>), a text file with the text
  that \<^verbatim>\<open>read_text(encoding="utf-8")\<close> returns, or something that cannot be read as
  text.
\<close>

datatype node = TextFile string | Unreadable

text \<open>The loop of \<^verbatim>\<open>read_cli_from_file\<close>; \<open>commands\<close> is the list it appends to.\<close>

fun read_loop :: "string list \<Rightarrow> string list \<Rightarrow> string list" where
  "read_loop [] commands = commands"
| "read_loop (line # rest) commands =
     (let stripped = strip line
      in if stripped \<noteq> [] \<and> \<not> startswith stripped ''#''
         then read_loop rest (commands @ [stripped])
         else read_loop rest commands)"

definition read_cli_from_file :: "(string \<Rightarrow> node option) \<Rightarrow> string \<Rightarrow> py_error + string list" where
  "read_cli_from_file fs filepath =
     (case fs filepath of
        None \<Rightarrow> Inl (FileNotFoundError (''CLI file not found: '' @ filepath))
      | Some Unreadable \<Rightarrow> Inl ReadError
      | Some (TextFile text) \<Rightarrow> Inr (read_loop (splitlines text) []))"

section \<open>The command line\<close>

text \<open>
  The namespace that \<^verbatim>\<open>parse_args\<close> returns. An option that was not given is
  \<open>None\<close>; \<open>output_path\<close> is \<^verbatim>\<open>args.output\<close>.
\<close>

record args =
  product :: "string list"
  cli :: "string list option"
  cli_file :: "string option"
  output_path :: "string option"
  timeout :: int
  output_json :: bool
  api_url :: string

text \<open>
  Gathering the commands in \<^verbatim>\<open>main\<close>: the file is read when \<^verbatim>\<open>args.cli_file\<close> is
  a non-empty string, else \<^verbatim>\<open>args.cli\<close> is taken as it is; no command at all is a
  usage error.
\<close>

definition gather_cli_commands :: "(string \<Rightarrow> node option) \<Rightarrow> args \<Rightarrow> py_error + string list" where
  "gather_cli_commands fs a =
     (case (case cli_file a of
              None \<Rightarrow> Inr (cli a)
            | Some p \<Rightarrow>
                if p \<noteq> [] then map_sum id Some (read_cli_from_file fs p) else Inr (cli a)) of
        Inl e \<Rightarrow> Inl e
      | Inr None \<Rightarrow> Inl (UsageError ''No CLI commands provided.'')
      | Inr (Some cli_commands) \<Rightarrow>
          if cli_commands = [] then Inl (UsageError ''No CLI commands provided.'')
          else Inr cli_commands)"

text \<open>
  The world \<^verbatim>\<open>main\<close> runs in: the file system, the network, and the two library
  functions that turn a value into text (\<^verbatim>\<open>str\<close> and \<^verbatim>\<open>json.dumps\<close> with
  \<^verbatim>\<open>indent=2, ensure_ascii=False\<close>).
\<close>

record world =
  files :: "string \<Rightarrow> node option"
  network :: "request \<Rightarrow> http_result"
  str_of :: "json \<Rightarrow> string"
  json_dumps :: "json \<Rightarrow> string"

text \<open>
  What one run does. \<open>Exit code msg\<close> is a message on the error stream and the exit
  status; \<open>Uncaught e\<close> is an exception that no handler of \<^verbatim>\<open>main\<close> catches;
  \<open>Printed text\<close> is \<^verbatim>\<open>print(text)\<close>; \<open>Wrote path text\<close> is the text written to the
  file, followed by the line \<^verbatim>\<open>Script written to: path\<close> on the output stream.
\<close>

datatype message =
    CannotConnect
  | TimedOutAfter int
  | ErrorOf py_error
  | Usage string

datatype outcome =
    Exit nat message
  | Uncaught py_error
  | Printed string
  | Wrote string string

text \<open>The \<^verbatim>\<open>except\<close> clauses around the API call, in their order.\<close>

fun handle_api_error :: "int \<Rightarrow> py_error \<Rightarrow> outcome" where
  "handle_api_error t ConnectionError = Exit 1 CannotConnect"
| "handle_api_error t ConnectTimeout = Exit 1 CannotConnect"
| "handle_api_error t ReadTimeout = Exit 1 (TimedOutAfter t)"
| "handle_api_error t (HTTPError c) = Exit 1 (ErrorOf (HTTPError c))"
| "handle_api_error t RequestException = Exit 1 (ErrorOf RequestException)"
| "handle_api_error t JSONDecodeError = Exit 1 (ErrorOf JSONDecodeError)"
| "handle_api_error t (ValueError m) = Exit 1 (ErrorOf (ValueError m))"
| "handle_api_error t e = Uncaught e"

definition main :: "world \<Rightarrow> args \<Rightarrow> outcome" where
  "main w a =
     (case gather_cli_commands (files w) a of
        Inl (UsageError m) \<Rightarrow> Exit 2 (Usage m)
      | Inl e \<Rightarrow> Uncaught e
      | Inr cli_commands \<Rightarrow>
          (case call_ddt_api (network w) (str_of w) cli_commands (product a) (timeout a) of
             Inl e \<Rightarrow> handle_api_error (timeout a) e
           | Inr api_response \<Rightarrow>
               (case (if output_json a then Inr (json_dumps w api_response)
                      else map_sum id (\<lambda>automation_lines.
                             generate_script automation_lines (product a) cli_commands)
                             (extract_automation_lines (str_of w) api_response)) of
                  Inl e \<Rightarrow> Uncaught e
                | Inr text \<Rightarrow>
                    (case output_path a of
                       None \<Rightarrow> Printed text
                     | Some path \<Rightarrow> if path \<noteq> [] then Wrote path text else Printed text))))"

section \<open>The loops as list functions\<close>

lemma strip_Nil: "strip [] = []"
  by (simp add: strip_def)

lemma append_output_eq:
  "append_output ls lines = lines @ filter (\<lambda>l. l \<noteq> []) (map strip ls)"
  by (induction ls arbitrary: lines) (simp_all add: Let_def)

lemma read_loop_eq:
  "read_loop ls commands = commands @ filter (\<lambda>l. l \<noteq> [] \<and> \<not> startswith l ''#'') (map strip ls)"
  by (induction ls arbitrary: commands) (simp_all add: Let_def)

lemma fstr_dict_get:
  "fstr ps (dict_get e k (JStr d)) = (case map_of e k of None \<Rightarrow> d | Some v \<Rightarrow> fstr ps v)"
  by (simp add: dict_get_def fstr_def split: option.split)

lemma extract_loop_step:
  "extract_loop ps ((key, entry) # rest) lines =
     (case spec_entry_lines ps entry of
        Inl e \<Rightarrow> Inl e
      | Inr ls \<Rightarrow> extract_loop ps rest (lines @ ls))"
proof (cases entry)
  case (JObj e)
  show ?thesis
  proof (cases "dict_get e ''status'' JNull \<noteq> JStr ''SUCCESS''")
    case True
    then show ?thesis
      by (simp add: JObj spec_entry_lines_def fstr_dict_get)
  next
    case False
    show ?thesis
    proof (cases "dict_get e ''output_lines'' (JStr '''')")
      case (JStr s)
      with False show ?thesis
        by (simp add: JObj spec_entry_lines_def append_output_eq strip_Nil)
    next
      case (JFloat f)
      with False show ?thesis
        by (cases f) (simp_all add: JObj spec_entry_lines_def)
    qed (use False in \<open>simp_all add: JObj spec_entry_lines_def\<close>)
  qed
qed (simp_all add: spec_entry_lines_def)

lemma extract_loop_acc:
  "extract_loop ps items lines = map_sum id ((@) lines) (extract_loop ps items [])"
proof (induction items arbitrary: lines)
  case Nil
  show ?case by simp
next
  case (Cons item items)
  obtain key entry where item: "item = (key, entry)" by (cases item)
  show ?case
  proof (cases "spec_entry_lines ps entry")
    case (Inl e)
    then show ?thesis by (simp add: item extract_loop_step del: extract_loop.simps)
  next
    case (Inr ls)
    have "extract_loop ps (item # items) lines = extract_loop ps items (lines @ ls)"
      by (simp add: item extract_loop_step Inr del: extract_loop.simps)
    also have "\<dots> = map_sum id ((@) (lines @ ls)) (extract_loop ps items [])"
      by (rule Cons.IH)
    also have "\<dots> = map_sum id ((@) lines) (map_sum id ((@) ls) (extract_loop ps items []))"
      by (cases "extract_loop ps items []") simp_all
    also have "map_sum id ((@) ls) (extract_loop ps items []) = extract_loop ps items ([] @ ls)"
      using Cons.IH [of ls] by (simp add: id_def)
    also have "extract_loop ps items ([] @ ls) = extract_loop ps (item # items) []"
      by (simp add: item extract_loop_step Inr del: extract_loop.simps)
    finally show ?thesis .
  qed
qed

lemma extract_loop_flatten:
  "extract_loop ps items [] = spec_flatten (map (\<lambda>item. spec_entry_lines ps (snd item)) items)"
proof (induction items)
  case Nil
  show ?case by simp
next
  case (Cons item items)
  obtain key entry where item: "item = (key, entry)" by (cases item)
  show ?case
  proof (cases "spec_entry_lines ps entry")
    case (Inl e)
    then show ?thesis by (simp add: item extract_loop_step del: extract_loop.simps)
  next
    case (Inr ls)
    have "extract_loop ps (item # items) [] = extract_loop ps items ls"
      by (simp add: item extract_loop_step Inr del: extract_loop.simps)
    also have "\<dots> = map_sum id ((@) ls) (extract_loop ps items [])"
      by (rule extract_loop_acc)
    finally show ?thesis by (simp add: item Inr Cons.IH del: extract_loop.simps)
  qed
qed

lemma extract_single:
  "extract_automation_lines ps (JObj [(''result'', JObj [(key, entry)])]) = spec_entry_lines ps entry"
proof -
  have "extract_automation_lines ps (JObj [(''result'', JObj [(key, entry)])]) =
          extract_loop ps [(key, entry)] []"
    by (simp add: extract_automation_lines_def dict_get_def)
  also have "\<dots> = spec_entry_lines ps entry"
    by (cases "spec_entry_lines ps entry")
       (simp_all add: extract_loop_step del: extract_loop.simps(2))
  finally show ?thesis .
qed

lemma spec_flatten_Inr: "spec_flatten (map Inr lss) = Inr (concat lss)"
  by (induction lss) simp_all

lemma str_join_Cons: "str_join sep (l # ls) = l @ concat (map ((@) sep) ls)"
  by (induction ls arbitrary: l) simp_all

lemma str_join_terminated: "str_join sep (l # ls) @ sep = concat (map (\<lambda>x. x @ sep) (l # ls))"
  by (induction ls arbitrary: l) simp_all

lemma call_ddt_api_Inr_status:
  assumes "call_ddt_api post ps cmds prods t = Inr (JObj r)"
  shows "dict_get r ''status'' JNull = JStr ''SUCCESS''"
  using assms
  by (auto simp: call_ddt_api_def split: http_result.splits if_splits option.splits json.splits)

section \<open>The line extractor: entries and their order\<close>

text \<open>
  C1. A result entry whose status is \<^verbatim>\<open>SUCCESS\<close> and whose output is the text \<open>s\<close>
  (no \<^verbatim>\<open>output_lines\<close> field counts as the empty text) makes the extractor append,
  in their order, the stripped lines of the stripped text that are not empty, and nothing
  else. A result map with this entry alone extracts to exactly these lines; the map
  \<^verbatim>\<open>{"a": {"status": "SUCCESS", "output_lines": "  foo  \n\nbar\n"}}\<close> extracts to
  \<^verbatim>\<open>["foo", "bar"]\<close>.
\<close>

theorem success_entry_output_lines:
  assumes "dict_get e ''status'' JNull = JStr ''SUCCESS''"
    and "dict_get e ''output_lines'' (JStr '''') = JStr s"
  shows "extract_loop ps ((key, JObj e) # rest) lines =
           extract_loop ps rest
             (lines @ filter (\<lambda>l. l \<noteq> []) (map strip (splitlines (strip s))))
       \<and> extract_automation_lines ps (JObj [(''result'', JObj [(key, JObj e)])]) =
           Inr (filter (\<lambda>l. l \<noteq> []) (map strip (splitlines (strip s))))
       \<and> extract_automation_lines ps
           (JObj [(''result'', JObj [(''a'', JObj [(''status'', JStr ''SUCCESS''),
              (''output_lines'', JStr ''  foo  \<newline>\<newline>bar\<newline>'')])])]) =
           Inr [''foo'', ''bar'']"
proof -
  have one: "spec_entry_lines ps (JObj e) =
               Inr (filter (\<lambda>l. l \<noteq> []) (map strip (splitlines (strip s))))"
    using assms by (simp add: spec_entry_lines_def)
  have step: "extract_loop ps ((key, JObj e) # rest) lines =
           extract_loop ps rest
             (lines @ filter (\<lambda>l. l \<noteq> []) (map strip (splitlines (strip s))))"
    by (simp add: extract_loop_step one del: extract_loop.simps(2))
  have single: "extract_automation_lines ps (JObj [(''result'', JObj [(key, JObj e)])]) =
           Inr (filter (\<lambda>l. l \<noteq> []) (map strip (splitlines (strip s))))"
    by (simp only: extract_single one)
  have example: "extract_automation_lines ps
           (JObj [(''result'', JObj [(''a'', JObj [(''status'', JStr ''SUCCESS''),
              (''output_lines'', JStr ''  foo  \<newline>\<newline>bar\<newline>'')])])]) =
           Inr [''foo'', ''bar'']"
    by (simp add: extract_single spec_entry_lines_def dict_get_def strip_def isspace_def
          is_linebreak_def)
  from step single example show ?thesis by (intro conjI)
qed

theorem success_entry_output_lines_witness:
  "dict_get [(''status'', JStr ''SUCCESS''), (''output_lines'', JStr '' x \<newline> \<newline>y z'')]
     ''status'' JNull = JStr ''SUCCESS''
   \<and> dict_get [(''status'', JStr ''SUCCESS''), (''output_lines'', JStr '' x \<newline> \<newline>y z'')]
     ''output_lines'' (JStr '''') = JStr '' x \<newline> \<newline>y z''
   \<and> extract_loop (\<lambda>v. ''?'')
       [(''k'', JObj [(''status'', JStr ''SUCCESS''),
          (''output_lines'', JStr '' x \<newline> \<newline>y z'')])] [''w''] =
       Inr [''w'', ''x'', ''y z'']"
  using success_entry_output_lines
    [of "[(''status'', JStr ''SUCCESS''), (''output_lines'', JStr '' x \<newline> \<newline>y z'')]"
        "'' x \<newline> \<newline>y z''" "\<lambda>v. ''?''" "''k''" "[]" "[''w'']"]
  by (simp add: dict_get_def strip_def isspace_def is_linebreak_def)

text \<open>
  C2. A result entry whose status is not \<^verbatim>\<open>SUCCESS\<close> makes the extractor append
  exactly one line: \<^verbatim>\<open># ERROR: \<close> followed by the entry's \<^verbatim>\<open>error_message\<close>, or by
  \<^verbatim>\<open>Unknown error\<close> when the entry has no such field (a message that is no text is
  inserted as \<^verbatim>\<open>str\<close> prints it). The map
  \<^verbatim>\<open>{"a": {"status": "FAIL", "error_message": "bad syntax"}}\<close> extracts to
  \<^verbatim>\<open>["# ERROR: bad syntax"]\<close>.
\<close>

theorem failed_entry_error_line:
  assumes "dict_get e ''status'' JNull \<noteq> JStr ''SUCCESS''"
  shows "extract_loop ps ((key, JObj e) # rest) lines =
           extract_loop ps rest
             (lines @ [''# ERROR: '' @
                (case map_of e ''error_message'' of
                   None \<Rightarrow> ''Unknown error''
                 | Some (JStr m) \<Rightarrow> m
                 | Some v \<Rightarrow> ps v)])
       \<and> extract_automation_lines ps (JObj [(''result'', JObj [(key, JObj e)])]) =
           Inr [''# ERROR: '' @
                (case map_of e ''error_message'' of
                   None \<Rightarrow> ''Unknown error''
                 | Some (JStr m) \<Rightarrow> m
                 | Some v \<Rightarrow> ps v)]
       \<and> extract_automation_lines ps
           (JObj [(''result'', JObj [(''a'', JObj [(''status'', JStr ''FAIL''),
              (''error_message'', JStr ''bad syntax'')])])]) =
           Inr [''# ERROR: bad syntax'']
       \<and> extract_automation_lines ps
           (JObj [(''result'', JObj [(''a'', JObj [(''status'', JStr ''FAIL'')])])]) =
           Inr [''# ERROR: Unknown error'']"
proof -
  have one: "spec_entry_lines ps (JObj e) =
           Inr [''# ERROR: '' @
                (case map_of e ''error_message'' of
                   None \<Rightarrow> ''Unknown error''
                 | Some (JStr m) \<Rightarrow> m
                 | Some v \<Rightarrow> ps v)]"
    using assms by (simp add: spec_entry_lines_def fstr_def split: option.split json.split)
  have step: "extract_loop ps ((key, JObj e) # rest) lines =
           extract_loop ps rest
             (lines @ [''# ERROR: '' @
                (case map_of e ''error_message'' of
                   None \<Rightarrow> ''Unknown error''
                 | Some (JStr m) \<Rightarrow> m
                 | Some v \<Rightarrow> ps v)])"
    by (simp only: extract_loop_step one sum.case)
  have single: "extract_automation_lines ps (JObj [(''result'', JObj [(key, JObj e)])]) =
           Inr [''# ERROR: '' @
                (case map_of e ''error_message'' of
                   None \<Rightarrow> ''Unknown error''
                 | Some (JStr m) \<Rightarrow> m
                 | Some v \<Rightarrow> ps v)]"
    by (simp only: extract_single one)
  have example: "extract_automation_lines ps
           (JObj [(''result'', JObj [(''a'', JObj [(''status'', JStr ''FAIL''),
              (''error_message'', JStr ''bad syntax'')])])]) =
           Inr [''# ERROR: bad syntax'']"
    by (simp add: extract_single spec_entry_lines_def dict_get_def fstr_def)
  have absent: "extract_automation_lines ps
           (JObj [(''result'', JObj [(''a'', JObj [(''status'', JStr ''FAIL'')])])]) =
           Inr [''# ERROR: Unknown error'']"
    by (simp add: extract_single spec_entry_lines_def dict_get_def)
  from step single example absent show ?thesis by (intro conjI)
qed

theorem failed_entry_error_line_witness:
  "dict_get [(''error_message'', JStr ''no such command'')] ''status'' JNull \<noteq> JStr ''SUCCESS''
   \<and> extract_loop (\<lambda>v. ''?'') [(''7'', JObj [(''error_message'', JStr ''no such command'')])]
       [''first''] = Inr [''first'', ''# ERROR: no such command'']"
  using failed_entry_error_line
    [of "[(''error_message'', JStr ''no such command'')]" "\<lambda>v. ''?''" "''7''" "[]" "[''first'']"]
  by (simp add: dict_get_def)

text \<open>
  C3. The extractor goes through the entries of the result map in ascending order of
  their keys, compared as plain strings, each entry once: the keys \<^verbatim>\<open>"2", "1", "10"\<close>
  are processed in the order \<^verbatim>\<open>"1", "10", "2"\<close>. The flat sequence is the lines of the
  entries in that order, each entry's lines in their own order.
\<close>

theorem extract_in_key_order:
  assumes "dict_get r ''result'' (JObj []) = JObj result"
  shows "extract_automation_lines ps (JObj r) =
           spec_flatten (map (\<lambda>item. spec_entry_lines ps (snd item)) (sort_key fst result))
       \<and> sorted (map fst (sort_key fst result))
       \<and> mset (sort_key fst result) = mset result
       \<and> spec_flatten (map Inr lss) = Inr (concat lss)
       \<and> map fst (sort_key fst [(''2'', x), (''1'', y), (''10'', z)]) = [''1'', ''10'', ''2'']
       \<and> extract_automation_lines ps
           (JObj [(''status'', JStr ''SUCCESS''),
                  (''result'', JObj
                     [(''2'', JObj [(''status'', JStr ''SUCCESS''),
                                    (''output_lines'', JStr ''c\<newline>d'')]),
                      (''1'', JObj [(''status'', JStr ''SUCCESS''),
                                    (''output_lines'', JStr ''a\<newline>b'')]),
                      (''10'', JObj [(''status'', JStr ''FAIL''),
                                     (''error_message'', JStr ''e'')])])]) =
           Inr [''a'', ''b'', ''# ERROR: e'', ''c'', ''d'']"
proof -
  have general: "extract_automation_lines ps (JObj r) =
           spec_flatten (map (\<lambda>item. spec_entry_lines ps (snd item)) (sort_key fst result))"
    using assms by (simp add: extract_automation_lines_def extract_loop_flatten)
  have keys: "map fst (sort_key fst [(''2'', x), (''1'', y), (''10'', z)]) = [''1'', ''10'', ''2'']"
    by (simp add: less_eq_char_def less_char_def)
  have example: "extract_automation_lines ps
           (JObj [(''status'', JStr ''SUCCESS''),
                  (''result'', JObj
                     [(''2'', JObj [(''status'', JStr ''SUCCESS''),
                                    (''output_lines'', JStr ''c\<newline>d'')]),
                      (''1'', JObj [(''status'', JStr ''SUCCESS''),
                                    (''output_lines'', JStr ''a\<newline>b'')]),
                      (''10'', JObj [(''status'', JStr ''FAIL''),
                                     (''error_message'', JStr ''e'')])])]) =
           Inr [''a'', ''b'', ''# ERROR: e'', ''c'', ''d'']"
    by (simp add: extract_automation_lines_def dict_get_def fstr_def strip_def isspace_def
          is_linebreak_def less_eq_char_def less_char_def)
  from general keys example show ?thesis
    by (simp only: sorted_sort_key mset_sort spec_flatten_Inr simp_thms)
qed

theorem extract_in_key_order_witness:
  "dict_get [(''status'', JStr ''SUCCESS''),
             (''result'', JObj [(''b'', JObj [(''status'', JStr ''SUCCESS''),
                                              (''output_lines'', JStr ''late'')]),
                                (''B'', JObj [(''status'', JStr ''SUCCESS''),
                                              (''output_lines'', JStr ''early'')])])]
     ''result'' (JObj []) =
     JObj [(''b'', JObj [(''status'', JStr ''SUCCESS''), (''output_lines'', JStr ''late'')]),
           (''B'', JObj [(''status'', JStr ''SUCCESS''), (''output_lines'', JStr ''early'')])]
   \<and> extract_automation_lines (\<lambda>v. ''?'')
       (JObj [(''status'', JStr ''SUCCESS''),
             (''result'', JObj [(''b'', JObj [(''status'', JStr ''SUCCESS''),
                                              (''output_lines'', JStr ''late'')]),
                                (''B'', JObj [(''status'', JStr ''SUCCESS''),
                                              (''output_lines'', JStr ''early'')])])]) =
       Inr [''early'', ''late'']"
  using extract_in_key_order
    [of "[(''status'', JStr ''SUCCESS''),
             (''result'', JObj [(''b'', JObj [(''status'', JStr ''SUCCESS''),
                                              (''output_lines'', JStr ''late'')]),
                                (''B'', JObj [(''status'', JStr ''SUCCESS''),
                                              (''output_lines'', JStr ''early'')])])]"
        "[(''b'', JObj [(''status'', JStr ''SUCCESS''), (''output_lines'', JStr ''late'')]),
           (''B'', JObj [(''status'', JStr ''SUCCESS''), (''output_lines'', JStr ''early'')])]"
        "\<lambda>v. ''?''"]
  by (simp add: dict_get_def spec_entry_lines_def strip_def isspace_def is_linebreak_def
        less_eq_char_def less_char_def)

section \<open>The renderer: the text of the script\<close>

text \<open>
  C4. The renderer returns the line \<^verbatim>\<open># No automation lines generated\<close> with its line
  feed for the empty sequence; for any other sequence it returns the lines joined by line
  feeds with one line feed after the last, which is every line followed by one line feed.
  \<^verbatim>\<open>["a", "b"]\<close> renders to \<^verbatim>\<open>"a\nb\n"\<close>.
\<close>

theorem generate_script_text:
  "generate_script [] products cli_commands = ''# No automation lines generated\<newline>''
   \<and> generate_script (l # ls) products cli_commands = str_join ''\<newline>'' (l # ls) @ ''\<newline>''
   \<and> generate_script (l # ls) products cli_commands =
       l @ concat (map ((@) ''\<newline>'') ls) @ ''\<newline>''
   \<and> generate_script (l # ls) products cli_commands =
       concat (map (\<lambda>x. x @ ''\<newline>'') (l # ls))
   \<and> generate_script [''a'', ''b''] products cli_commands = ''a\<newline>b\<newline>''"
proof -
  have empty: "generate_script [] products cli_commands = ''# No automation lines generated\<newline>''"
    by (simp add: generate_script_def)
  have joined: "generate_script (l # ls) products cli_commands =
      str_join ''\<newline>'' (l # ls) @ ''\<newline>''"
    by (simp add: generate_script_def)
  have between: "generate_script (l # ls) products cli_commands =
      l @ concat (map ((@) ''\<newline>'') ls) @ ''\<newline>''"
    unfolding joined str_join_Cons by simp
  have each: "generate_script (l # ls) products cli_commands =
      concat (map (\<lambda>x. x @ ''\<newline>'') (l # ls))"
    unfolding joined by (rule str_join_terminated)
  have example: "generate_script [''a'', ''b''] products cli_commands = ''a\<newline>b\<newline>''"
    by (simp add: generate_script_def)
  from empty joined between each example show ?thesis by (intro conjI)
qed

section \<open>The API client: request and status check\<close>

text \<open>
  C5. When the response arrives, passes the HTTP status check and its body parses to an
  object, the API client fails with the \<open>ValueError\<close> of the status check exactly when
  the body's \<^verbatim>\<open>status\<close> is not \<^verbatim>\<open>SUCCESS\<close> (else it returns the body). The message
  is \<^verbatim>\<open>API error: \<close> followed by the body's \<^verbatim>\<open>message\<close>, or by
  \<^verbatim>\<open>Unknown error\<close> when there is no such field. The run then ends with this error and
  exit status 1 whatever the \<^verbatim>\<open>result\<close> field holds: no extraction takes place.
\<close>

theorem api_logic_error:
  assumes "gather_cli_commands (files w) a = Inr cmds"
    and "network w (ddt_request cmds (product a) (timeout a)) = Response code (Some (JObj d))"
    and "\<not> (400 \<le> code \<and> code < 600)"
  shows "call_ddt_api (network w) (str_of w) cmds (product a) (timeout a) =
           (if dict_get d ''status'' JNull \<noteq> JStr ''SUCCESS''
            then Inl (ValueError (''API error: '' @
                   (case map_of d ''message'' of
                      None \<Rightarrow> ''Unknown error''
                    | Some (JStr m) \<Rightarrow> m
                    | Some v \<Rightarrow> str_of w v)))
            else Inr (JObj d))
       \<and> (main w a =
            Exit 1 (ErrorOf (ValueError (''API error: '' @
                   (case map_of d ''message'' of
                      None \<Rightarrow> ''Unknown error''
                    | Some (JStr m) \<Rightarrow> m
                    | Some v \<Rightarrow> str_of w v))))) =
           (dict_get d ''status'' JNull \<noteq> JStr ''SUCCESS'')"
proof -
  let ?msg = "''API error: '' @
                   (case map_of d ''message'' of
                      None \<Rightarrow> ''Unknown error''
                    | Some (JStr m) \<Rightarrow> m
                    | Some v \<Rightarrow> str_of w v)"
  have msg: "''API error: '' @ fstr (str_of w) (dict_get d ''message'' (JStr ''Unknown error'')) =
      ?msg"
    by (simp add: fstr_dict_get) (simp add: fstr_def split: option.split json.split)
  have call: "call_ddt_api (network w) (str_of w) cmds (product a) (timeout a) =
           (if dict_get d ''status'' JNull \<noteq> JStr ''SUCCESS''
            then Inl (ValueError ?msg) else Inr (JObj d))"
    using assms(2,3) msg by (simp add: call_ddt_api_def)
  have run: "(main w a = Exit 1 (ErrorOf (ValueError ?msg))) =
           (dict_get d ''status'' JNull \<noteq> JStr ''SUCCESS'')"
  proof (cases "dict_get d ''status'' JNull \<noteq> JStr ''SUCCESS''")
    case True
    then show ?thesis
      by (simp add: main_def assms(1) call)
  next
    case False
    then show ?thesis
      by (simp add: main_def assms(1) call split: sum.split option.split)
  qed
  from call run show ?thesis by (intro conjI)
qed

theorem api_logic_error_witness:
  "gather_cli_commands
     (files \<lparr>files = map_of [], network = (\<lambda>q. Response 200 (Some (JObj
        [(''status'', JStr ''FAIL''), (''message'', JStr ''license expired''),
         (''result'', JNull)]))), str_of = (\<lambda>v. ''?''), json_dumps = (\<lambda>v. ''{}'')\<rparr>)
     \<lparr>product = [''USG6000F''], cli = Some [''display this''], cli_file = None,
      output_path = None, timeout = 60, output_json = False, api_url = DDT_API_URL\<rparr> =
     Inr [''display this'']
   \<and> main
       \<lparr>files = map_of [], network = (\<lambda>q. Response 200 (Some (JObj
          [(''status'', JStr ''FAIL''), (''message'', JStr ''license expired''),
           (''result'', JNull)]))), str_of = (\<lambda>v. ''?''), json_dumps = (\<lambda>v. ''{}'')\<rparr>
       \<lparr>product = [''USG6000F''], cli = Some [''display this''], cli_file = None,
        output_path = None, timeout = 60, output_json = False, api_url = DDT_API_URL\<rparr> =
       Exit 1 (ErrorOf (ValueError ''API error: license expired''))
   \<and> extract_automation_lines (\<lambda>v. ''?'')
       (JObj [(''status'', JStr ''FAIL''), (''message'', JStr ''license expired''),
              (''result'', JNull)]) = Inl AttributeError"
  using api_logic_error
    [of "\<lparr>files = map_of [], network = (\<lambda>q. Response 200 (Some (JObj
          [(''status'', JStr ''FAIL''), (''message'', JStr ''license expired''),
           (''result'', JNull)]))), str_of = (\<lambda>v. ''?''), json_dumps = (\<lambda>v. ''{}'')\<rparr>"
        "\<lparr>product = [''USG6000F''], cli = Some [''display this''], cli_file = None,
          output_path = None, timeout = 60, output_json = False, api_url = DDT_API_URL\<rparr>"
        "[''display this'']" 200
        "[(''status'', JStr ''FAIL''), (''message'', JStr ''license expired''),
          (''result'', JNull)]"]
  by (simp add: gather_cli_commands_def dict_get_def extract_automation_lines_def)

text \<open>
  C7. For a command sequence with at least one command, the API client posts one request,
  to the fixed URL, whose JSON body is the object with \<^verbatim>\<open>applicable_products\<close>, the
  products, and \<^verbatim>\<open>block_clis\<close>, an array whose only element is the commands in their
  order with one line feed between two neighbours. What the network does with exactly
  this request decides the client's result: if the post raises, the client raises the
  same error; if the network answers with a successful body, the client returns that
  body; a network that answers with the body it was sent shows this body; and a network
  that refuses every request with another body gives the client the same result.
\<close>

theorem call_ddt_api_request_body:
  "req_json (ddt_request (c # cs) products t) =
     JObj [(''applicable_products'', JArr (map JStr products)),
           (''block_clis'', JArr [JStr (c @ concat (map ((@) ''\<newline>'') cs))])]
   \<and> call_ddt_api post ps (c # cs) products t =
       call_ddt_api
         (\<lambda>q. if req_json q =
                   JObj [(''applicable_products'', JArr (map JStr products)),
                         (''block_clis'', JArr [JStr (c @ concat (map ((@) ''\<newline>'') cs))])]
               then post q else PostRaises ConnectionError)
         ps (c # cs) products t
   \<and> (post \<lparr>req_url = DDT_API_URL,
              req_json = JObj [(''applicable_products'', JArr (map JStr products)),
                (''block_clis'', JArr [JStr (c @ concat (map ((@) ''\<newline>'') cs))])],
              req_timeout = t,
              req_headers = [(''Content-Type'', ''application/json''),
                             (''Accept'', ''application/json'')]\<rparr> = PostRaises e
        \<longrightarrow> call_ddt_api post ps (c # cs) products t = Inl e)
   \<and> (post \<lparr>req_url = DDT_API_URL,
              req_json = JObj [(''applicable_products'', JArr (map JStr products)),
                (''block_clis'', JArr [JStr (c @ concat (map ((@) ''\<newline>'') cs))])],
              req_timeout = t,
              req_headers = [(''Content-Type'', ''application/json''),
                             (''Accept'', ''application/json'')]\<rparr> =
          Response 200 (Some (JObj ((''status'', JStr ''SUCCESS'') # d)))
        \<longrightarrow> call_ddt_api post ps (c # cs) products t =
              Inr (JObj ((''status'', JStr ''SUCCESS'') # d)))
   \<and> call_ddt_api
         (\<lambda>q. Response 200 (Some (JObj [(''status'', JStr ''SUCCESS''), (''posted'', req_json q)])))
         ps (c # cs) products t =
       Inr (JObj [(''status'', JStr ''SUCCESS''),
                  (''posted'', JObj [(''applicable_products'', JArr (map JStr products)),
                     (''block_clis'', JArr [JStr (c @ concat (map ((@) ''\<newline>'') cs))])])])
   \<and> call_ddt_api
         (\<lambda>q. Response 200 (Some (JObj [(''status'', JStr ''SUCCESS''), (''posted'', req_json q)])))
         ps [''system-view'', ''ospf 1'', ''display this''] [''USG6000F''] t =
       Inr (JObj [(''status'', JStr ''SUCCESS''),
                  (''posted'', JObj [(''applicable_products'', JArr [JStr ''USG6000F'']),
                     (''block_clis'',
                      JArr [JStr ''system-view\<newline>ospf 1\<newline>display this''])])])"
proof -
  let ?body = "JObj [(''applicable_products'', JArr (map JStr products)),
           (''block_clis'', JArr [JStr (c @ concat (map ((@) ''\<newline>'') cs))])]"
  let ?request = "\<lparr>req_url = DDT_API_URL, req_json = ?body, req_timeout = t,
              req_headers = [(''Content-Type'', ''application/json''),
                             (''Accept'', ''application/json'')]\<rparr>"
  have request: "ddt_request (c # cs) products t = ?request"
    by (simp add: ddt_request_def str_join_Cons del: str_join.simps)
  have body: "req_json (ddt_request (c # cs) products t) = ?body"
    by (simp add: request)
  have sent: "call_ddt_api post ps (c # cs) products t =
       call_ddt_api (\<lambda>q. if req_json q = ?body then post q else PostRaises ConnectionError)
         ps (c # cs) products t"
    by (simp add: call_ddt_api_def body)
  have raised: "post ?request = PostRaises e \<longrightarrow>
      call_ddt_api post ps (c # cs) products t = Inl e"
    by (simp add: call_ddt_api_def request)
  have answered: "post ?request = Response 200 (Some (JObj ((''status'', JStr ''SUCCESS'') # d)))
      \<longrightarrow> call_ddt_api post ps (c # cs) products t =
            Inr (JObj ((''status'', JStr ''SUCCESS'') # d))"
    by (simp add: call_ddt_api_def request dict_get_def)
  have posted: "call_ddt_api
         (\<lambda>q. Response 200 (Some (JObj [(''status'', JStr ''SUCCESS''), (''posted'', req_json q)])))
         ps (c # cs) products t =
       Inr (JObj [(''status'', JStr ''SUCCESS''), (''posted'', ?body)])"
    by (simp add: call_ddt_api_def request dict_get_def)
  have example: "call_ddt_api
         (\<lambda>q. Response 200 (Some (JObj [(''status'', JStr ''SUCCESS''), (''posted'', req_json q)])))
         ps [''system-view'', ''ospf 1'', ''display this''] [''USG6000F''] t =
       Inr (JObj [(''status'', JStr ''SUCCESS''),
                  (''posted'', JObj [(''applicable_products'', JArr [JStr ''USG6000F'']),
                     (''block_clis'',
                      JArr [JStr ''system-view\<newline>ospf 1\<newline>display this''])])])"
    by (simp add: call_ddt_api_def ddt_request_def dict_get_def)
  from body sent raised answered posted example show ?thesis by (intro conjI)
qed

theorem call_ddt_api_request_body_witness:
  "(\<lambda>q. if req_json q =
            JObj [(''applicable_products'', JArr [JStr ''USG6000F'']),
                  (''block_clis'', JArr [JStr ''system-view\<newline>ospf 1''])]
         then PostRaises ReadTimeout else PostRaises ConnectionError)
     \<lparr>req_url = DDT_API_URL,
      req_json = JObj [(''applicable_products'', JArr [JStr ''USG6000F'']),
                       (''block_clis'', JArr [JStr ''system-view\<newline>ospf 1''])],
      req_timeout = 60,
      req_headers = [(''Content-Type'', ''application/json''),
                     (''Accept'', ''application/json'')]\<rparr> = PostRaises ReadTimeout
   \<and> call_ddt_api
       (\<lambda>q. if req_json q =
            JObj [(''applicable_products'', JArr [JStr ''USG6000F'']),
                  (''block_clis'', JArr [JStr ''system-view\<newline>ospf 1''])]
         then PostRaises ReadTimeout else PostRaises ConnectionError)
       (\<lambda>v. ''?'') [''system-view'', ''ospf 1''] [''USG6000F''] 60 = Inl ReadTimeout
   \<and> call_ddt_api
       (\<lambda>q. if req_json q =
            JObj [(''applicable_products'', JArr [JStr ''USG6000F'']),
                  (''block_clis'', JArr [JStr ''system-view\<newline>ospf 1''])]
         then Response 200 (Some (JObj [(''status'', JStr ''SUCCESS''), (''result'', JObj [])]))
         else PostRaises ConnectionError)
       (\<lambda>v. ''?'') [''system-view'', ''ospf 1''] [''USG6000F''] 60 =
       Inr (JObj [(''status'', JStr ''SUCCESS''), (''result'', JObj [])])"
proof -
  have refused: "call_ddt_api
       (\<lambda>q. if req_json q =
            JObj [(''applicable_products'', JArr [JStr ''USG6000F'']),
                  (''block_clis'', JArr [JStr ''system-view\<newline>ospf 1''])]
         then PostRaises ReadTimeout else PostRaises ConnectionError)
       (\<lambda>v. ''?'') [''system-view'', ''ospf 1''] [''USG6000F''] 60 = Inl ReadTimeout"
    using call_ddt_api_request_body
      [of "''system-view''" "[''ospf 1'']" "[''USG6000F'']" 60
          "\<lambda>q. if req_json q =
              JObj [(''applicable_products'', JArr [JStr ''USG6000F'']),
                    (''block_clis'', JArr [JStr ''system-view\<newline>ospf 1''])]
           then PostRaises ReadTimeout else PostRaises ConnectionError"
          "\<lambda>v. ''?''" ReadTimeout "[]",
       THEN conjunct2, THEN conjunct2, THEN conjunct1]
    by simp
  have answered: "call_ddt_api
       (\<lambda>q. if req_json q =
            JObj [(''applicable_products'', JArr [JStr ''USG6000F'']),
                  (''block_clis'', JArr [JStr ''system-view\<newline>ospf 1''])]
         then Response 200 (Some (JObj [(''status'', JStr ''SUCCESS''), (''result'', JObj [])]))
         else PostRaises ConnectionError)
       (\<lambda>v. ''?'') [''system-view'', ''ospf 1''] [''USG6000F''] 60 =
       Inr (JObj [(''status'', JStr ''SUCCESS''), (''result'', JObj [])])"
    using call_ddt_api_request_body
      [of "''system-view''" "[''ospf 1'']" "[''USG6000F'']" 60
          "\<lambda>q. if req_json q =
              JObj [(''applicable_products'', JArr [JStr ''USG6000F'']),
                    (''block_clis'', JArr [JStr ''system-view\<newline>ospf 1''])]
           then Response 200 (Some (JObj [(''status'', JStr ''SUCCESS''), (''result'', JObj [])]))
           else PostRaises ConnectionError"
          "\<lambda>v. ''?''" ReadTimeout "[(''result'', JObj [])]",
       THEN conjunct2, THEN conjunct2, THEN conjunct2, THEN conjunct1]
    by simp
  from refused answered show ?thesis by simp
qed

section \<open>The input collector: commands from a file or from the arguments\<close>

text \<open>
  C6. For a file that exists and holds text, file mode returns, in file order, the
  stripped lines of the text that are not empty and do not start with \<^verbatim>\<open>#\<close>. A file
  with the lines \<^verbatim>\<open>display this\<close>, an empty line, \<^verbatim>\<open># comment\<close> and
  \<^verbatim>\<open>system-view\<close> (with or without a final line feed) gives
  \<^verbatim>\<open>["display this", "system-view"]\<close>.
\<close>

theorem read_cli_from_file_commands:
  assumes "fs filepath = Some (TextFile text)"
  shows "read_cli_from_file fs filepath =
           Inr (filter (\<lambda>l. l \<noteq> [] \<and> \<not> startswith l ''#'') (map strip (splitlines text)))
       \<and> read_cli_from_file
           (map_of [(''commands.txt'',
              TextFile (str_join ''\<newline>''
                [''display this'', '''', ''# comment'', ''system-view'']))])
           ''commands.txt'' =
           Inr [''display this'', ''system-view'']
       \<and> read_cli_from_file
           (map_of [(''commands.txt'',
              TextFile ''display this\<newline>\<newline># comment\<newline>system-view\<newline>'')])
           ''commands.txt'' =
           Inr [''display this'', ''system-view'']"
proof -
  have general: "read_cli_from_file fs filepath =
           Inr (filter (\<lambda>l. l \<noteq> [] \<and> \<not> startswith l ''#'') (map strip (splitlines text)))"
    using assms by (simp add: read_cli_from_file_def read_loop_eq)
  have joined: "read_cli_from_file
           (map_of [(''commands.txt'',
              TextFile (str_join ''\<newline>''
                [''display this'', '''', ''# comment'', ''system-view'']))])
           ''commands.txt'' =
           Inr [''display this'', ''system-view'']"
    by (simp add: read_cli_from_file_def strip_def isspace_def is_linebreak_def startswith_def)
  have terminated: "read_cli_from_file
           (map_of [(''commands.txt'',
              TextFile ''display this\<newline>\<newline># comment\<newline>system-view\<newline>'')])
           ''commands.txt'' =
           Inr [''display this'', ''system-view'']"
    by (simp add: read_cli_from_file_def strip_def isspace_def is_linebreak_def startswith_def)
  from general joined terminated show ?thesis by (intro conjI)
qed

theorem read_cli_from_file_commands_witness:
  "map_of [(''c.txt'', TextFile ''  #x\<newline> ospf 1 \<newline>\<newline>quit'')] ''c.txt'' =
     Some (TextFile ''  #x\<newline> ospf 1 \<newline>\<newline>quit'')
   \<and> read_cli_from_file (map_of [(''c.txt'', TextFile ''  #x\<newline> ospf 1 \<newline>\<newline>quit'')])
       ''c.txt'' = Inr [''ospf 1'', ''quit'']"
  using read_cli_from_file_commands
    [of "map_of [(''c.txt'', TextFile ''  #x\<newline> ospf 1 \<newline>\<newline>quit'')]" "''c.txt''"
        "''  #x\<newline> ospf 1 \<newline>\<newline>quit''"]
  by (simp add: strip_def isspace_def is_linebreak_def startswith_def)

text \<open>
  Direct mode takes the strings as they are given: an empty string given to
  \<^verbatim>\<open>--cli\<close> is an entry of the command sequence.
\<close>

theorem direct_mode_empty_entry_counterexample:
  "gather_cli_commands (map_of [])
     \<lparr>product = [''USG6000F''], cli = Some [''''], cli_file = None,
      output_path = None, timeout = 60, output_json = False, api_url = DDT_API_URL\<rparr> =
     Inr ['''']
   \<and> '''' \<in> set ['''']"
  by (simp add: gather_cli_commands_def)

text \<open>
  C8, as the program has it. When the input collector returns a command sequence, the
  sequence has at least one command. In direct mode it is the given list, unchanged and in the given
  order. In file mode it is, in file order, the stripped lines of the file that are not
  empty and do not start with \<^verbatim>\<open>#\<close>: a subsequence of the stripped lines with no
  empty entry.
\<close>

theorem gather_cli_commands_order:
  assumes "gather_cli_commands fs a = Inr cmds"
  shows "cmds \<noteq> []
       \<and> (case cli_file a of
            None \<Rightarrow> cli a = Some cmds
          | Some p \<Rightarrow>
              if p = [] then cli a = Some cmds
              else (case fs p of
                      Some (TextFile text) \<Rightarrow>
                        cmds = filter (\<lambda>l. l \<noteq> [] \<and> \<not> startswith l ''#'')
                                 (map strip (splitlines text))
                        \<and> subseq cmds (map strip (splitlines text))
                        \<and> [] \<notin> set cmds
                    | _ \<Rightarrow> False))"
proof (cases "cli_file a")
  case None
  with assms show ?thesis
    by (auto simp: gather_cli_commands_def split: option.splits if_splits)
next
  case (Some p)
  show ?thesis
  proof (cases "p = []")
    case True
    with Some assms show ?thesis
      by (auto simp: gather_cli_commands_def split: option.splits if_splits)
  next
    case False
    show ?thesis
    proof (cases "fs p")
      case None
      with Some False assms show ?thesis
        by (simp add: gather_cli_commands_def read_cli_from_file_def)
    next
      case fsp: (Some n)
      show ?thesis
      proof (cases n)
        case Unreadable
        with Some False fsp assms show ?thesis
          by (simp add: gather_cli_commands_def read_cli_from_file_def)
      next
        case (TextFile t)
        let ?cs = "filter (\<lambda>l. l \<noteq> [] \<and> \<not> startswith l ''#'') (map strip (splitlines t))"
        have "gather_cli_commands fs a =
                (if ?cs = [] then Inl (UsageError ''No CLI commands provided.'') else Inr ?cs)"
          using Some False fsp TextFile
          by (simp add: gather_cli_commands_def read_cli_from_file_def read_loop_eq)
        with assms have cmds: "cmds = ?cs" and ne: "cmds \<noteq> []"
          by (auto split: if_splits)
        have sub: "subseq cmds (map strip (splitlines t))"
          unfolding cmds by (rule subseq_filter_left)
        have nonempty: "[] \<notin> set cmds"
          unfolding cmds by simp
        from cmds ne sub nonempty Some False fsp TextFile show ?thesis
          by simp
      qed
    qed
  qed
qed

theorem gather_cli_commands_order_witness:
  "gather_cli_commands (map_of [(''c.txt'', TextFile '' quit \<newline>\<newline># x\<newline>ospf 1'')])
     \<lparr>product = [''USG6000F''], cli = None, cli_file = Some ''c.txt'',
      output_path = None, timeout = 60, output_json = False, api_url = DDT_API_URL\<rparr> =
     Inr [''quit'', ''ospf 1'']
   \<and> subseq [''quit'', ''ospf 1'']
       (map strip (splitlines '' quit \<newline>\<newline># x\<newline>ospf 1''))
   \<and> gather_cli_commands (map_of [])
       \<lparr>product = [''USG6000F''], cli = Some [''ospf 1'', ''area 0''], cli_file = None,
        output_path = None, timeout = 60, output_json = False, api_url = DDT_API_URL\<rparr> =
       Inr [''ospf 1'', ''area 0'']"
  using gather_cli_commands_order
    [of "map_of [(''c.txt'', TextFile '' quit \<newline>\<newline># x\<newline>ospf 1'')]"
        "\<lparr>product = [''USG6000F''], cli = None, cli_file = Some ''c.txt'',
          output_path = None, timeout = 60, output_json = False, api_url = DDT_API_URL\<rparr>"
        "[''quit'', ''ospf 1'']"]
    gather_cli_commands_order
    [of "map_of []"
        "\<lparr>product = [''USG6000F''], cli = Some [''ospf 1'', ''area 0''], cli_file = None,
          output_path = None, timeout = 60, output_json = False, api_url = DDT_API_URL\<rparr>"
        "[''ospf 1'', ''area 0'']"]
  by (simp add: gather_cli_commands_def read_cli_from_file_def strip_def isspace_def
        is_linebreak_def startswith_def)

text \<open>
  C9. When nothing exists at the given path, file mode raises \<open>FileNotFoundError\<close>
  (message \<^verbatim>\<open>CLI file not found: \<close> and the path) and returns no command sequence.
\<close>

theorem read_cli_from_file_missing:
  assumes "fs filepath = None"
  shows "read_cli_from_file fs filepath =
           Inl (FileNotFoundError (''CLI file not found: '' @ filepath))
       \<and> (\<forall>commands. read_cli_from_file fs filepath \<noteq> Inr commands)"
  using assms by (simp add: read_cli_from_file_def)

theorem read_cli_from_file_missing_witness:
  "map_of [(''commands.txt'', TextFile ''display this'')] ''other.txt'' = None
   \<and> read_cli_from_file (map_of [(''commands.txt'', TextFile ''display this'')]) ''other.txt'' =
       Inl (FileNotFoundError ''CLI file not found: other.txt'')"
  using read_cli_from_file_missing
    [of "map_of [(''commands.txt'', TextFile ''display this'')]" "''other.txt''"]
  by simp

section \<open>A response without results\<close>

text \<open>
  C10. For a response body that the API client returns (its status is \<^verbatim>\<open>SUCCESS\<close>)
  and that has no \<^verbatim>\<open>result\<close> field, or an empty result map, the extractor returns the
  empty sequence without an error, and the rendered text is the line
  \<^verbatim>\<open># No automation lines generated\<close> with its line feed.
\<close>

theorem empty_result_placeholder:
  assumes "call_ddt_api post ps cmds prods t = Inr (JObj r)"
    and "map_of r ''result'' = None \<or> map_of r ''result'' = Some (JObj [])"
  shows "dict_get r ''status'' JNull = JStr ''SUCCESS''
       \<and> extract_automation_lines ps (JObj r) = Inr []
       \<and> map_sum id (\<lambda>automation_lines. generate_script automation_lines prods cmds)
           (extract_automation_lines ps (JObj r)) =
           Inr ''# No automation lines generated\<newline>''"
proof -
  have status: "dict_get r ''status'' JNull = JStr ''SUCCESS''"
    using assms(1) by (rule call_ddt_api_Inr_status)
  have result: "dict_get r ''result'' (JObj []) = JObj []"
    using assms(2) by (auto simp: dict_get_def)
  have lines: "extract_automation_lines ps (JObj r) = Inr []"
    by (simp add: extract_automation_lines_def result)
  from status lines show ?thesis
    by (simp add: generate_script_def)
qed

theorem empty_result_placeholder_witness:
  "call_ddt_api (\<lambda>q. Response 200 (Some (JObj [(''status'', JStr ''SUCCESS'')]))) (\<lambda>v. ''?'')
     [''display this''] [''USG6000F''] 60 = Inr (JObj [(''status'', JStr ''SUCCESS'')])
   \<and> map_of [(''status'', JStr ''SUCCESS'')] ''result'' = None
   \<and> extract_automation_lines (\<lambda>v. ''?'') (JObj [(''status'', JStr ''SUCCESS'')]) = Inr []
   \<and> map_sum id (\<lambda>automation_lines.
         generate_script automation_lines [''USG6000F''] [''display this''])
       (extract_automation_lines (\<lambda>v. ''?'') (JObj [(''status'', JStr ''SUCCESS'')])) =
       Inr ''# No automation lines generated\<newline>''"
  using empty_result_placeholder
    [of "\<lambda>q. Response 200 (Some (JObj [(''status'', JStr ''SUCCESS'')]))" "\<lambda>v. ''?''"
        "[''display this'']" "[''USG6000F'']" 60 "[(''status'', JStr ''SUCCESS'')]"]
  by (simp add: call_ddt_api_def dict_get_def generate_script_def)

end
